theory Spec2Isabelle
  imports Complex_Main "HOL-Library.Sublist"
begin

section \<open>Data model (models/user.js, models/file.js)\<close>

text \<open>
  A Mongoose ObjectId is a 12-byte value, written as 24 hexadecimal characters. It is
  modelled by the number those characters denote, so that two spellings of one
  identifier (upper and lower case) are equal and identifier order is numeric order.
\<close>

type_synonym objectId = nat

text \<open>
  \<^verbatim>\<open>fileSchema\<close>: only \<^verbatim>\<open>filename\<close> is required; every other field may be absent.
  The field \<^verbatim>\<open>size\<close> is called \<open>size_f\<close> here.
\<close>

record file_doc =
  file_id :: objectId
  filename :: string
  originalname :: "string option"
  mimetype :: "string option"
  size_f :: "nat option"
  pageCount :: "nat option"
  uploadedBy :: "objectId option"

text \<open>\<^verbatim>\<open>userSchema\<close>: a required name and the array \<^verbatim>\<open>files\<close> of File identifiers.\<close>

record user_doc =
  user_id :: objectId
  name :: string
  files :: "objectId list"

text \<open>
  The state the handlers act on: the two collections, each in the order the store
  returns it to a query without a sort (new records are appended), and the directory
  \<^verbatim>\<open>uploads/\<close> as a map from path to bytes.
\<close>

record state =
  userColl :: "user_doc list"
  fileColl :: "file_doc list"
  uploads :: "string \<rightharpoonup> string"

text \<open>
  A JavaScript \<^verbatim>\<open>Error\<close>: its message, and the \<^verbatim>\<open>status\<close> property that only errors
  made by \<^verbatim>\<open>http-errors\<close> carry.
\<close>

datatype error = Error (message: string) (status: "nat option")

text \<open>
  What the handlers cannot decide by themselves is an input of the model: the clock
  (\<^verbatim>\<open>Date.now()\<close>), the identifier that \<^verbatim>\<open>new File(...)\<close> generates, the PDF parser
  (\<^verbatim>\<open>PDFDocument.load(bytes).getPageCount()\<close>, which throws or returns a page count), and
  for every store operation whether it is rejected for a reason of the store's own
  (connection lost, version conflict, record gone).
\<close>

datatype store_op =
  User_findById_op | File_save_op | User_save_op | File_findById_op | populate_op
  | File_find_op | File_countDocuments_op

record env =
  now :: nat
  newObjectId :: objectId
  pdfLoad :: "string \<Rightarrow> error + nat"
  storeFault :: "store_op \<Rightarrow> error option"

section \<open>Responses\<close>

text \<open>
  The JSON bodies the handlers send: \<^verbatim>\<open>{ error: message }\<close>, the application error
  handler's \<^verbatim>\<open>{ message, error }\<close>, a File record, a User record, a File record with \<^verbatim>\<open>uploadedBy\<close>
  populated by the owner's identifier and name, an array of File records, and the
  listing object \<^verbatim>\<open>{ files, totalPages, total, currentPage }\<close>.
\<close>

record listing =
  files_l :: "file_doc list"
  totalPages :: int
  total :: nat
  currentPage :: int

datatype body =
  ErrorBody string
  | AppErrorBody string
  | FileBody file_doc
  | UserBody user_doc
  | PopulatedFileBody file_doc "(objectId \<times> string) option"
  | FilesBody "file_doc list"
  | ListingBody listing

type_synonym response = "nat \<times> body"

section \<open>Library behaviour the handlers rely on\<close>

subsection \<open>Decimal rendering of a number\<close>

fun show_nat :: "nat \<Rightarrow> string" where
  "show_nat n =
     (if n < 10 then [''0123456789'' ! n]
      else show_nat (n div 10) @ [''0123456789'' ! (n mod 10)])"

declare show_nat.simps [simp del]

subsection \<open>Casting a string to an ObjectId\<close>

text \<open>
  The value of a character as a digit: \<open>0\<close>-\<open>9\<close>, then \<open>a\<close>-\<open>z\<close> and \<open>A\<close>-\<open>Z\<close> for
  10 to 35.
\<close>

definition digit_value :: "char \<Rightarrow> nat option" where
  "digit_value c =
     (let k = (of_char c :: nat) in
      if 48 \<le> k \<and> k \<le> 57 then Some (k - 48)
      else if 97 \<le> k \<and> k \<le> 122 then Some (k - 87)
      else if 65 \<le> k \<and> k \<le> 90 then Some (k - 55)
      else None)"

definition radix_digit :: "nat \<Rightarrow> char \<Rightarrow> nat option" where
  "radix_digit R c =
     (case digit_value c of
        None \<Rightarrow> None
      | Some d \<Rightarrow> if d < R then Some d else None)"

fun hex_value :: "nat \<Rightarrow> string \<Rightarrow> nat option" where
  "hex_value acc [] = Some acc"
| "hex_value acc (c # cs) =
     (case radix_digit 16 c of
        None \<Rightarrow> None
      | Some d \<Rightarrow> hex_value (16 * acc + d) cs)"

text \<open>
  Mongoose casts the string given as an identifier to an ObjectId and throws a
  \<^verbatim>\<open>CastError\<close> when it cannot: the string must be 24 hexadecimal characters. (Older
  versions of the driver also take any string of 12 characters as the 12 bytes; the
  model follows the current rule. The error's message is cut short here: the library's
  goes on with the value, the path and the model.)
\<close>

definition castObjectId :: "string \<Rightarrow> objectId option" where
  "castObjectId s = (if length s = 24 then hex_value 0 s else None)"

definition CastError :: error where
  "CastError = Error ''Cast to ObjectId failed'' None"

subsection \<open>Store operations\<close>

text \<open>
  \<^verbatim>\<open>Model.findById(id)\<close>: an absent identifier (\<^verbatim>\<open>undefined\<close>) is looked up as
  \<^verbatim>\<open>{ _id: null }\<close> and finds nothing; a string is cast first.
\<close>

definition User_findById :: "env \<Rightarrow> state \<Rightarrow> string option \<Rightarrow> error + user_doc option" where
  "User_findById e st uid =
     (case uid of
        None \<Rightarrow> (case storeFault e User_findById_op of Some err \<Rightarrow> Inl err | None \<Rightarrow> Inr None)
      | Some s \<Rightarrow>
          (case castObjectId s of
             None \<Rightarrow> Inl CastError
           | Some i \<Rightarrow>
               (case storeFault e User_findById_op of
                  Some err \<Rightarrow> Inl err
                | None \<Rightarrow> Inr (find (\<lambda>u. user_id u = i) (userColl st)))))"

definition File_findById :: "env \<Rightarrow> state \<Rightarrow> string \<Rightarrow> error + file_doc option" where
  "File_findById e st fid =
     (case castObjectId fid of
        None \<Rightarrow> Inl CastError
      | Some i \<Rightarrow>
          (case storeFault e File_findById_op of
             Some err \<Rightarrow> Inl err
           | None \<Rightarrow> Inr (find (\<lambda>f. file_id f = i) (fileColl st))))"

text \<open>
  \<^verbatim>\<open>file.save()\<close> of a new record inserts it; the store rejects an \<^verbatim>\<open>_id\<close> it already
  holds (the unique index on \<^verbatim>\<open>_id\<close>).
\<close>

definition File_save :: "env \<Rightarrow> file_doc \<Rightarrow> state \<Rightarrow> error + (file_doc \<times> state)" where
  "File_save e f st =
     (case storeFault e File_save_op of
        Some err \<Rightarrow> Inl err
      | None \<Rightarrow>
          if file_id f \<in> set (map file_id (fileColl st))
          then Inl (Error ''E11000 duplicate key error'' None)
          else Inr (f, st\<lparr>fileColl := fileColl st @ [f]\<rparr>))"

text \<open>\<^verbatim>\<open>user.save()\<close> of a loaded record writes it back under its identifier.\<close>

definition User_save :: "env \<Rightarrow> user_doc \<Rightarrow> state \<Rightarrow> error + state" where
  "User_save e u st =
     (case storeFault e User_save_op of
        Some err \<Rightarrow> Inl err
      | None \<Rightarrow>
          Inr (st\<lparr>userColl := map (\<lambda>v. if user_id v = user_id u then u else v) (userColl st)\<rparr>))"

section \<open>The upload middleware (multer: \<^verbatim>\<open>storage\<close>, \<^verbatim>\<open>upload\<close>)\<close>

text \<open>
  The file part of a multipart request as the client sends it: the file name, the
  \<^verbatim>\<open>Content-Type\<close> header of the part if there is one, and the bytes.
\<close>

record upload_part =
  part_originalname :: string
  part_content_type :: "string option"
  part_content :: string

text \<open>
  What multer's parser (busboy) makes of the part before the filter and the storage
  see it: \<^verbatim>\<open>file.originalname\<close> and \<^verbatim>\<open>file.mimetype\<close>.
\<close>

record file_info =
  fi_originalname :: string
  fi_mimetype :: string

text \<open>\<^verbatim>\<open>req.file\<close> as multer leaves it for the handler once the bytes are on disk.\<close>

record multer_file =
  mf_filename :: string
  mf_originalname :: string
  mf_mimetype :: string
  mf_size :: nat
  mf_path :: string

record upload_req =
  body_userId :: "string option"
  file_part :: "upload_part option"

subsection \<open>The file name and the media type multer reports\<close>

text \<open>
  Multer's parser (busboy) does not pass the part's headers on as they were sent. Of the
  file name it keeps the base name, the part after the last \<^verbatim>\<open>/\<close> or backslash, and
  nothing at all when that is \<^verbatim>\<open>.\<close> or \<^verbatim>\<open>..\<close>.
\<close>

definition basename :: "string \<Rightarrow> string" where
  "basename path =
     (let b = rev (takeWhile (\<lambda>c. c \<noteq> CHR ''/'' \<and> c \<noteq> CHR 0x5C) (rev path))
      in if b = ''..'' \<or> b = ''.'' then [] else b)"

text \<open>
  Of the \<^verbatim>\<open>Content-Type\<close> it reads a type and a subtype, each a run of token
  characters, joined by \<^verbatim>\<open>/\<close>, then any number of parameters \<^verbatim>\<open>; name=value\<close>, the value
  a run of token characters or a quoted string; it lower-cases type and subtype and
  reports them without the parameters. A part with no such header, or with one that
  does not have this form, is reported as \<^verbatim>\<open>text/plain\<close>.
\<close>

definition is_token :: "char \<Rightarrow> bool" where
  "is_token c =
     (let k = (of_char c :: nat) in
      k = 33 \<or> (35 \<le> k \<and> k \<le> 39) \<or> k = 42 \<or> k = 43 \<or> k = 45 \<or> k = 46
      \<or> (48 \<le> k \<and> k \<le> 57) \<or> (65 \<le> k \<and> k \<le> 90) \<or> (94 \<le> k \<and> k \<le> 122)
      \<or> k = 124 \<or> k = 126)"

definition is_qdtext :: "char \<Rightarrow> bool" where
  "is_qdtext c =
     (let k = (of_char c :: nat) in
      k = 9 \<or> k = 32 \<or> k = 33 \<or> (35 \<le> k \<and> k \<le> 91) \<or> (93 \<le> k \<and> k \<le> 126) \<or> 128 \<le> k)"

definition lower_char :: "char \<Rightarrow> char" where
  "lower_char c =
     (let k = (of_char c :: nat) in
      if 65 \<le> k \<and> k \<le> 90 then ''abcdefghijklmnopqrstuvwxyz'' ! (k - 65) else c)"

definition skip_ws :: "string \<Rightarrow> string" where
  "skip_ws s = dropWhile (\<lambda>c. (of_char c :: nat) = 32 \<or> (of_char c :: nat) = 9) s"

fun quoted_value_rest :: "string \<Rightarrow> bool \<Rightarrow> string option" where
  "quoted_value_rest [] escaping = None"
| "quoted_value_rest (c # cs) escaping =
     (if c = CHR 0x5C then quoted_value_rest cs (\<not> escaping)
      else if c = CHR 0x22 then (if escaping then quoted_value_rest cs False else Some cs)
      else if is_qdtext c then quoted_value_rest cs False
      else None)"

datatype param_step = Params_done | Params_malformed | Params_next string

definition parse_param :: "string \<Rightarrow> param_step" where
  "parse_param s =
     (let s1 = skip_ws s in
      if s1 = [] then Params_done
      else if take 1 s1 \<noteq> '';'' then Params_malformed
      else let s2 = skip_ws (drop 1 s1) in
        if s2 = [] then Params_malformed
        else let s3 = dropWhile is_token s2 in
          if take 1 s3 \<noteq> ''='' then Params_malformed
          else let s4 = drop 1 s3 in
            if s4 = [] then Params_malformed
            else if take 1 s4 = [CHR 0x22] then
              (case quoted_value_rest (drop 1 s4) False of
                 None \<Rightarrow> Params_malformed
               | Some s5 \<Rightarrow> Params_next s5)
            else if takeWhile is_token s4 = [] then Params_malformed
            else Params_next (dropWhile is_token s4))"

function params_ok :: "string \<Rightarrow> bool" where
  "params_ok s =
     (case parse_param s of
        Params_done \<Rightarrow> True
      | Params_malformed \<Rightarrow> False
      | Params_next rest \<Rightarrow> params_ok rest)"
  by pat_completeness auto
termination
proof (relation "measure length")
  show "wf (measure length)" by simp
next
  fix s rest
  assume step: "parse_param s = Params_next rest"
  have q: "quoted_value_rest cs b = Some r \<Longrightarrow> length r \<le> length cs" for cs b r
    by (induction cs arbitrary: b) (auto split: if_splits intro: le_SucI)
  have d: "length (dropWhile P xs) \<le> length xs" for P and xs :: string
    by (rule length_dropWhile_le)
  let ?s1 = "skip_ws s"
  let ?s2 = "skip_ws (drop 1 ?s1)"
  let ?s3 = "dropWhile is_token ?s2"
  let ?s4 = "drop 1 ?s3"
  from step have ne: "?s1 \<noteq> []"
    by (auto simp: parse_param_def Let_def split: if_splits)
  have l1: "length ?s1 \<le> length s" unfolding skip_ws_def by (rule d)
  have l2: "length ?s2 \<le> length (drop 1 ?s1)" unfolding skip_ws_def by (rule d)
  have l3: "length ?s3 \<le> length ?s2" by (rule d)
  have l4: "length ?s4 \<le> length ?s3" by simp
  have l5: "length ?s4 < length s" using ne l1 l2 l3 l4 by (cases ?s1) auto
  from step have "length rest \<le> length ?s4"
    using q [of "drop 1 ?s4" False rest] d [of is_token ?s4]
    by (auto simp: parse_param_def Let_def split: if_splits option.splits)
  with l5 show "(rest, s) \<in> measure length" by simp
qed

declare params_ok.simps [simp del]

text \<open>\<^verbatim>\<open>parseContentType\<close>: \<open>None\<close> stands for the parser's \<^verbatim>\<open>undefined\<close>.\<close>

definition parseContentType :: "string \<Rightarrow> string option" where
  "parseContentType h =
     (let ty = takeWhile is_token h;
          r1 = dropWhile is_token h;
          sub = takeWhile is_token (drop 1 r1);
          r2 = dropWhile is_token (drop 1 r1)
      in if ty = [] \<or> take 1 r1 \<noteq> ''/'' \<or> sub = [] then None
         else if params_ok r2 then Some (map lower_char (ty @ ''/'' @ sub))
         else None)"

definition busboy_mimetype :: "string option \<Rightarrow> string" where
  "busboy_mimetype h =
     (case h of
        None \<Rightarrow> ''text/plain''
      | Some v \<Rightarrow> (case parseContentType v of None \<Rightarrow> ''text/plain'' | Some t \<Rightarrow> t))"

definition busboy_file :: "upload_part \<Rightarrow> file_info" where
  "busboy_file p =
     \<lparr>fi_originalname = basename (part_originalname p),
      fi_mimetype = busboy_mimetype (part_content_type p)\<rparr>"

subsection \<open>The filter, the limit and the storage\<close>

text \<open>
  \<^verbatim>\<open>fileFilter\<close> tests \<^verbatim>\<open>file.mimetype\<close>, the media type as multer reports it; the result
  is the error it passes to its callback, if any.
\<close>

definition fileFilter :: "file_info \<Rightarrow> error option" where
  "fileFilter file =
     (if fi_mimetype file \<noteq> ''application/pdf''
      then Some (Error ''Only PDF files are allowed'' None)
      else None)"

definition fileSize_limit :: nat where
  "fileSize_limit = 5 * 1024 * 1024"

text \<open>\<^verbatim>\<open>storage\<close>: the destination \<^verbatim>\<open>uploads/\<close> and the name \<^verbatim>\<open>Date.now() + '-' + originalname\<close>.\<close>

definition storage_filename :: "env \<Rightarrow> file_info \<Rightarrow> string" where
  "storage_filename e file = show_nat (now e) @ ''-'' @ fi_originalname file"

definition storage_path :: "env \<Rightarrow> file_info \<Rightarrow> string" where
  "storage_path e file = ''uploads/'' @ storage_filename e file"

text \<open>
  \<^verbatim>\<open>upload.single('file')\<close>. Multer passes over a file part whose file name is empty
  (\<^verbatim>\<open>if (!filename) return fileStream.resume()\<close>). Otherwise it asks \<^verbatim>\<open>fileFilter\<close>, with
  the file as its parser reports it, before it hands the stream to the storage, so a refused part writes nothing; a part longer than the limit is removed
  from the disk again and the request fails; a request with no file part goes on with
  \<^verbatim>\<open>req.file\<close> undefined. An error goes to \<^verbatim>\<open>next(err)\<close>, past the route's handler.
\<close>

definition upload_single :: "env \<Rightarrow> upload_req \<Rightarrow> state \<Rightarrow> (error + multer_file option) \<times> state" where
  "upload_single e req st =
     (case file_part req of
        None \<Rightarrow> (Inr None, st)
      | Some p \<Rightarrow>
          if fi_originalname (busboy_file p) = [] then (Inr None, st)
          else
          (case fileFilter (busboy_file p) of
             Some err \<Rightarrow> (Inl err, st)
           | None \<Rightarrow>
               if length (part_content p) > fileSize_limit
               then (Inl (Error ''File too large'' None),
                     st\<lparr>uploads := (uploads st)(storage_path e (busboy_file p) := None)\<rparr>)
               else (Inr (Some \<lparr>mf_filename = storage_filename e (busboy_file p),
                                 mf_originalname = fi_originalname (busboy_file p),
                                 mf_mimetype = fi_mimetype (busboy_file p),
                                 mf_size = length (part_content p),
                                 mf_path = storage_path e (busboy_file p)\<rparr>),
                     st\<lparr>uploads :=
                          (uploads st)(storage_path e (busboy_file p) \<mapsto> part_content p)\<rparr>)))"

section \<open>The application's error handler (app.js)\<close>

text \<open>
  \<^verbatim>\<open>res.status(err.status || 500); res.json({ message: err.message, error: err })\<close>.
  A status of 0 is falsy and replaced as an absent one is.
\<close>

definition app_error_handler :: "error \<Rightarrow> response" where
  "app_error_handler err =
     ((case status err of None \<Rightarrow> 500 | Some c \<Rightarrow> if c = 0 then 500 else c),
      AppErrorBody (message err))"

section \<open>POST /files: the upload handler\<close>

text \<open>
  \<^verbatim>\<open>PDFDocument.load(fs.readFileSync(req.file.path))\<close> and \<^verbatim>\<open>getPageCount()\<close>: reading a
  path that is not on the disk throws.
\<close>

definition load_pageCount :: "env \<Rightarrow> state \<Rightarrow> string \<Rightarrow> error + nat" where
  "load_pageCount e st path =
     (case uploads st path of
        None \<Rightarrow> Inl (Error ''ENOENT: no such file or directory'' None)
      | Some bytes \<Rightarrow> pdfLoad e bytes)"

text \<open>
  \<^verbatim>\<open>new File({ ... })\<close>: the generated \<^verbatim>\<open>_id\<close>, the fields of \<^verbatim>\<open>req.file\<close>, the page
  count, and \<^verbatim>\<open>uploadedBy\<close> cast from the string of the request body.
\<close>

definition new_File :: "env \<Rightarrow> multer_file \<Rightarrow> nat \<Rightarrow> string option \<Rightarrow> file_doc" where
  "new_File e f pc uid =
     \<lparr>file_id = newObjectId e,
      filename = mf_filename f,
      originalname = Some (mf_originalname f),
      mimetype = Some (mf_mimetype f),
      size_f = Some (mf_size f),
      pageCount = Some pc,
      uploadedBy = (case uid of None \<Rightarrow> None | Some s \<Rightarrow> castObjectId s)\<rparr>"

text \<open>
  The handler's body. Every \<^verbatim>\<open>await\<close> that rejects and every call that throws ends in
  the one \<^verbatim>\<open>catch\<close>, which answers 400 with the error's message; the state at that
  moment stays as it is.
\<close>

definition upload_handler ::
  "env \<Rightarrow> string option \<Rightarrow> multer_file option \<Rightarrow> state \<Rightarrow> response \<times> state" where
  "upload_handler e userId file st =
     (case file of
        None \<Rightarrow> ((400, ErrorBody ''No file uploaded''), st)
      | Some f \<Rightarrow>
          (case User_findById e st userId of
             Inl err \<Rightarrow> ((400, ErrorBody (message err)), st)
           | Inr None \<Rightarrow> ((404, ErrorBody ''User not found''), st)
           | Inr (Some user) \<Rightarrow>
               (case load_pageCount e st (mf_path f) of
                  Inl err \<Rightarrow> ((400, ErrorBody (message err)), st)
                | Inr pc \<Rightarrow>
                    (case File_save e (new_File e f pc userId) st of
                       Inl err \<Rightarrow> ((400, ErrorBody (message err)), st)
                     | Inr (savedFile, st1) \<Rightarrow>
                         (case User_save e (user\<lparr>files := files user @ [file_id savedFile]\<rparr>) st1 of
                            Inl err \<Rightarrow> ((400, ErrorBody (message err)), st1)
                          | Inr st2 \<Rightarrow> ((201, FileBody savedFile), st2))))))"

text \<open>The route: the middleware, then the handler unless the middleware failed.\<close>

definition post_files :: "env \<Rightarrow> upload_req \<Rightarrow> state \<Rightarrow> response \<times> state" where
  "post_files e req st =
     (case upload_single e req st of
        (Inl err, st1) \<Rightarrow> (app_error_handler err, st1)
      | (Inr file, st1) \<Rightarrow> upload_handler e (body_userId req) file st1)"

section \<open>POST /users (routes/users.js)\<close>

text \<open>
  The fields \<^verbatim>\<open>name\<close> and \<^verbatim>\<open>files\<close> of the JSON body, the second an array of identifiers
  as strings. (A body that sets \<^verbatim>\<open>_id\<close> itself is left out.)
\<close>

record user_req =
  body_name :: "string option"
  body_files :: "string list"

text \<open>
  \<^verbatim>\<open>new User(req.body)\<close> takes both fields from the body and generates the \<^verbatim>\<open>_id\<close>;
  \<^verbatim>\<open>user.save()\<close> validates (the name is required and not empty, every element of
  \<^verbatim>\<open>files\<close> must cast to an ObjectId) and inserts the record. Whatever fails, the \<^verbatim>\<open>catch\<close>
  answers 400 \<^verbatim>\<open>Failed to create user\<close>.
\<close>

definition post_users :: "env \<Rightarrow> user_req \<Rightarrow> state \<Rightarrow> response \<times> state" where
  "post_users e req st =
     (let failed = ((400, ErrorBody ''Failed to create user''), st) in
      case body_name req of
        None \<Rightarrow> failed
      | Some n \<Rightarrow>
          if n = [] \<or> None \<in> set (map castObjectId (body_files req)) then failed
          else (case storeFault e User_save_op of
                  Some err \<Rightarrow> failed
                | None \<Rightarrow>
                    if newObjectId e \<in> set (map user_id (userColl st)) then failed
                    else let user = \<lparr>user_id = newObjectId e, name = n,
                                       files = map the (map castObjectId (body_files req))\<rparr>
                         in ((201, UserBody user), st\<lparr>userColl := userColl st @ [user]\<rparr>)))"

section \<open>GET /files/:id\<close>

text \<open>
  \<^verbatim>\<open>populate('uploadedBy', 'name')\<close>: the owner reference is replaced by the owner's
  identifier and name, or by null when no such owner is in the store.
\<close>

definition populate_uploadedBy :: "env \<Rightarrow> state \<Rightarrow> file_doc \<Rightarrow> error + (objectId \<times> string) option" where
  "populate_uploadedBy e st f =
     (case uploadedBy f of
        None \<Rightarrow> Inr None
      | Some uid \<Rightarrow>
          (case storeFault e populate_op of
             Some err \<Rightarrow> Inl err
           | None \<Rightarrow>
               Inr (map_option (\<lambda>u. (user_id u, name u))
                      (find (\<lambda>u. user_id u = uid) (userColl st)))))"

definition get_file_by_id :: "env \<Rightarrow> state \<Rightarrow> string \<Rightarrow> response" where
  "get_file_by_id e st fileId =
     (case File_findById e st fileId of
        Inl err \<Rightarrow> (500, ErrorBody (message err))
      | Inr None \<Rightarrow> (404, ErrorBody ''File not found'')
      | Inr (Some f) \<Rightarrow>
          (case populate_uploadedBy e st f of
             Inl err \<Rightarrow> (500, ErrorBody (message err))
           | Inr owner \<Rightarrow> (200, PopulatedFileBody f owner)))"

section \<open>GET /files/user/:userId: the paginated listing\<close>

subsection \<open>\<^verbatim>\<open>parseInt\<close> and \<^verbatim>\<open>||\<close>\<close>

text \<open>
  \<^verbatim>\<open>parseInt(string)\<close> with no radix: leading white space is skipped, then an optional
  sign, then \<^verbatim>\<open>0x\<close> or \<^verbatim>\<open>0X\<close> selects radix 16 (radix 10 otherwise), then the longest
  run of digits of that radix is the value; no digit at all gives \<^verbatim>\<open>NaN\<close>, which is
  \<open>None\<close> here. Numbers are modelled as exact integers (JavaScript's are exact up
  to \<open>2^53\<close>).
\<close>

definition isWhiteSpace :: "char \<Rightarrow> bool" where
  "isWhiteSpace c = ((of_char c :: nat) \<in> {9, 10, 11, 12, 13, 32})"

fun parse_digits :: "nat \<Rightarrow> string \<Rightarrow> nat option \<Rightarrow> nat option" where
  "parse_digits R [] acc = acc"
| "parse_digits R (c # cs) acc =
     (case radix_digit R c of
        None \<Rightarrow> acc
      | Some d \<Rightarrow> parse_digits R cs (Some (R * (case acc of None \<Rightarrow> 0 | Some a \<Rightarrow> a) + d)))"

definition parseInt :: "string \<Rightarrow> int option" where
  "parseInt input =
     (let S = dropWhile isWhiteSpace input;
          neg = (take 1 S = ''-'');
          S1 = (if take 1 S = ''+'' \<or> take 1 S = ''-'' then drop 1 S else S);
          hex = (take 2 S1 = ''0x'' \<or> take 2 S1 = ''0X'');
          R = (if hex then 16 else 10);
          S2 = (if hex then drop 2 S1 else S1)
      in case parse_digits R S2 None of
           None \<Rightarrow> None
         | Some m \<Rightarrow> Some (if neg then - int m else int m))"

text \<open>
  A query parameter is a string or absent; \<^verbatim>\<open>parseInt(undefined)\<close> parses the string
  \<^verbatim>\<open>undefined\<close>.
\<close>

definition parseInt_query :: "string option \<Rightarrow> int option" where
  "parseInt_query q = (case q of None \<Rightarrow> parseInt ''undefined'' | Some s \<Rightarrow> parseInt s)"

text \<open>\<^verbatim>\<open>x || d\<close> on a number: \<^verbatim>\<open>NaN\<close> and 0 are falsy, every other number is kept.\<close>

definition or_default :: "int option \<Rightarrow> int \<Rightarrow> int" where
  "or_default x d = (case x of None \<Rightarrow> d | Some n \<Rightarrow> if n = 0 then d else n)"

text \<open>\<^verbatim>\<open>Math.ceil(a / b)\<close> for a divisor that is not 0.\<close>

definition ceil_div :: "int \<Rightarrow> int \<Rightarrow> int" where
  "ceil_div a b = - ((- a) div b)"

subsection \<open>The two queries\<close>

text \<open>
  \<^verbatim>\<open>File.find({ uploadedBy: userId }).skip(skip).limit(limit)\<close>: no sort is asked for, so
  the matching records come in the collection's own order. The store refuses a negative
  skip; a negative limit counts as its absolute value and a limit of 0 as no limit.
\<close>

definition owned_by :: "objectId \<Rightarrow> file_doc list \<Rightarrow> file_doc list" where
  "owned_by uid fs = filter (\<lambda>f. uploadedBy f = Some uid) fs"

definition File_find_page :: "env \<Rightarrow> state \<Rightarrow> string \<Rightarrow> int \<Rightarrow> int \<Rightarrow> error + file_doc list" where
  "File_find_page e st userId skip limit =
     (case castObjectId userId of
        None \<Rightarrow> Inl CastError
      | Some uid \<Rightarrow>
          (case storeFault e File_find_op of
             Some err \<Rightarrow> Inl err
           | None \<Rightarrow>
               if skip < 0 then Inl (Error ''skip value must be non-negative'' None)
               else let matching = drop (nat skip) (owned_by uid (fileColl st))
                    in Inr (if limit = 0 then matching else take (nat \<bar>limit\<bar>) matching)))"

definition File_countDocuments :: "env \<Rightarrow> state \<Rightarrow> string \<Rightarrow> error + nat" where
  "File_countDocuments e st userId =
     (case castObjectId userId of
        None \<Rightarrow> Inl CastError
      | Some uid \<Rightarrow>
          (case storeFault e File_countDocuments_op of
             Some err \<Rightarrow> Inl err
           | None \<Rightarrow> Inr (length (owned_by uid (fileColl st)))))"

subsection \<open>The handler\<close>

definition get_user_files :: "env \<Rightarrow> state \<Rightarrow> string \<Rightarrow> string option \<Rightarrow> string option \<Rightarrow> response" where
  "get_user_files e st userId page_q limit_q =
     (let page = or_default (parseInt_query page_q) 1;
          limit = or_default (parseInt_query limit_q) 10;
          skip = (page - 1) * limit
      in case File_find_page e st userId skip limit of
           Inl err \<Rightarrow> (500, ErrorBody (message err))
         | Inr fs \<Rightarrow>
             (case File_countDocuments e st userId of
                Inl err \<Rightarrow> (500, ErrorBody (message err))
              | Inr totalFiles \<Rightarrow>
                  (200, ListingBody \<lparr>files_l = fs,
                                     totalPages = ceil_div (int totalFiles) limit,
                                     total = totalFiles,
                                     currentPage = page\<rparr>)))"

section \<open>GET /files/all\<close>

definition get_all_files :: "env \<Rightarrow> state \<Rightarrow> response" where
  "get_all_files e st =
     (case storeFault e File_find_op of
        Some err \<Rightarrow> (500, ErrorBody (message err))
      | None \<Rightarrow> (200, FilesBody (fileColl st)))"

section \<open>The router (routes/files.js mounted at /files)\<close>

text \<open>
  A path below \<^verbatim>\<open>/files\<close> is its list of segments. A route's pattern is a list of
  literal segments and named parameters (\<^verbatim>\<open>:id\<close>), a parameter matching any one
  non-empty segment and binding its name to it (\<^verbatim>\<open>req.params\<close>). The router tries its routes in the order they were registered and runs the
  first whose method and pattern match; no handler of this router calls \<^verbatim>\<open>next()\<close>.
\<close>

datatype http_method = GET | POST | PUT | DELETE

datatype segment = Lit string | Param string

datatype route = Upload | GetFileById | GetUserFiles | GetAllFiles

type_synonym params = "(string \<times> string) list"

fun match_path :: "segment list \<Rightarrow> string list \<Rightarrow> params option" where
  "match_path [] [] = Some []"
| "match_path (Lit l # ps) (s # ss) = (if s = l then match_path ps ss else None)"
| "match_path (Param k # ps) (s # ss) =
     (if s \<noteq> [] then map_option (Cons (k, s)) (match_path ps ss) else None)"
| "match_path _ _ = None"

definition files_routes :: "(http_method \<times> segment list \<times> route) list" where
  "files_routes =
     [(POST, [], Upload),
      (GET, [Param ''id''], GetFileById),
      (GET, [Lit ''user'', Param ''userId''], GetUserFiles),
      (GET, [Lit ''all''], GetAllFiles)]"

fun dispatch ::
  "(http_method \<times> segment list \<times> route) list \<Rightarrow> http_method \<Rightarrow> string list
     \<Rightarrow> (route \<times> params) option" where
  "dispatch [] m path = None"
| "dispatch ((m', pat, r) # rs) m path =
     (if m' = m then
        (case match_path pat path of
           Some ps \<Rightarrow> Some (r, ps)
         | None \<Rightarrow> dispatch rs m path)
      else dispatch rs m path)"

record request =
  req_method :: http_method
  req_path :: "string list"
  query_page :: "string option"
  query_limit :: "string option"
  req_upload :: upload_req

text \<open>\<^verbatim>\<open>req.params.k\<close>, as the string a query is given (an unbound name is \<^verbatim>\<open>undefined\<close>).\<close>

definition param :: "params \<Rightarrow> string \<Rightarrow> string" where
  "param ps k = (case map_of ps k of Some v \<Rightarrow> v | None \<Rightarrow> ''undefined'')"

text \<open>
  A request no route takes falls through to \<^verbatim>\<open>next(createError(404))\<close> in app.js and the
  application's error handler.
\<close>

definition files_router :: "env \<Rightarrow> request \<Rightarrow> state \<Rightarrow> response \<times> state" where
  "files_router e req st =
     (case dispatch files_routes (req_method req) (req_path req) of
        Some (Upload, _) \<Rightarrow> post_files e (req_upload req) st
      | Some (GetFileById, ps) \<Rightarrow> (get_file_by_id e st (param ps ''id''), st)
      | Some (GetUserFiles, ps) \<Rightarrow>
          (get_user_files e st (param ps ''userId'') (query_page req) (query_limit req), st)
      | Some (GetAllFiles, _) \<Rightarrow> (get_all_files e st, st)
      | None \<Rightarrow> (app_error_handler (Error ''Not Found'' (Some 404)), st))"

section \<open>States the pipeline can produce\<close>

text \<open>
  No route of the application writes a File record but the upload handler, and no route
  updates or deletes one. Starting from an empty File collection, the states of interest
  are those that uploads produce, whatever else happens to the User collection in
  between (routes/users.js creates and deletes users).
\<close>

inductive reachable :: "state \<Rightarrow> bool" where
  initial: "fileColl st = [] \<Longrightarrow> reachable st"
| upload: "reachable st \<Longrightarrow> reachable (snd (post_files e req st))"
| users_changed: "reachable st \<Longrightarrow> reachable (st\<lparr>userColl := us\<rparr>)"

section \<open>Example inputs\<close>

text \<open>
  An owner Alice with identifier \<open>0x...a1 = 161\<close> and no documents yet, an identifier
  that names no owner and a string that is no identifier, a small well-formed upload,
  one of the wrong media type, one with no file name, one whose bytes do not parse, and
  two whose declared media type is \<^verbatim>\<open>application/pdf\<close> in another spelling. The example parser accepts
  bytes that start with \<^verbatim>\<open>%PDF-\<close> and reports one page.
\<close>

definition alice_id :: string where
  "alice_id = ''0000000000000000000000a1''"

definition nobody_id :: string where
  "nobody_id = ''0000000000000000000000b2''"

definition malformed_id :: string where
  "malformed_id = ''abc''"

definition alice :: user_doc where
  "alice = \<lparr>user_id = 161, name = ''Alice'', files = []\<rparr>"

definition st0 :: state where
  "st0 = \<lparr>userColl = [alice], fileColl = [], uploads = Map.empty\<rparr>"

definition pdf_part :: upload_part where
  "pdf_part = \<lparr>part_originalname = ''a.pdf'', part_content_type = Some ''application/pdf'',
               part_content = ''%PDF-1''\<rparr>"

definition txt_part :: upload_part where
  "txt_part = \<lparr>part_originalname = ''a.txt'', part_content_type = Some ''text/plain'',
               part_content = ''hello''\<rparr>"

definition broken_part :: upload_part where
  "broken_part = \<lparr>part_originalname = ''b.pdf'', part_content_type = Some ''application/pdf'',
                  part_content = ''hello''\<rparr>"

definition upper_part :: upload_part where
  "upper_part = pdf_part\<lparr>part_content_type := Some ''Application/PDF''\<rparr>"

definition param_part :: upload_part where
  "param_part = pdf_part\<lparr>part_content_type := Some ''application/pdf; charset=binary''\<rparr>"

definition parse0 :: "string \<Rightarrow> error + nat" where
  "parse0 bytes =
     (if take 5 bytes = ''%PDF-'' then Inr 1
      else Inl (Error ''Failed to parse PDF document'' None))"

definition no_fault :: "store_op \<Rightarrow> error option" where
  "no_fault op = None"

definition fault_at :: "store_op \<Rightarrow> store_op \<Rightarrow> error option" where
  "fault_at bad op = (if op = bad then Some (Error ''connection closed'' None) else None)"

definition env0 :: env where
  "env0 = \<lparr>now = 17, newObjectId = 7, pdfLoad = parse0, storeFault = no_fault\<rparr>"

definition req0 :: upload_req where
  "req0 = \<lparr>body_userId = Some alice_id, file_part = Some pdf_part\<rparr>"

definition req_txt :: upload_req where
  "req_txt = \<lparr>body_userId = Some alice_id, file_part = Some txt_part\<rparr>"

definition req_nobody :: upload_req where
  "req_nobody = \<lparr>body_userId = Some nobody_id, file_part = Some pdf_part\<rparr>"

definition req_broken :: upload_req where
  "req_broken = \<lparr>body_userId = Some alice_id, file_part = Some broken_part\<rparr>"

definition req_upper :: upload_req where
  "req_upper = \<lparr>body_userId = Some alice_id, file_part = Some upper_part\<rparr>"

definition req_param :: upload_req where
  "req_param = \<lparr>body_userId = Some alice_id, file_part = Some param_part\<rparr>"

definition unnamed_part :: upload_part where
  "unnamed_part = txt_part\<lparr>part_originalname := []\<rparr>"

definition req_unnamed :: upload_req where
  "req_unnamed = \<lparr>body_userId = Some alice_id, file_part = Some unnamed_part\<rparr>"

definition req_malformed :: upload_req where
  "req_malformed = \<lparr>body_userId = Some malformed_id, file_part = Some pdf_part\<rparr>"

text \<open>The same environment with the store failing at \<^verbatim>\<open>user.save()\<close>, or at \<^verbatim>\<open>file.save()\<close>.\<close>

definition env_user_save_fails :: env where
  "env_user_save_fails = env0\<lparr>storeFault := fault_at User_save_op\<rparr>"

definition env_file_save_fails :: env where
  "env_file_save_fails = env0\<lparr>storeFault := fault_at File_save_op\<rparr>"

text \<open>The record and the staged file that the upload \<open>req0\<close> makes under \<open>env0\<close>.\<close>

definition doc7 :: file_doc where
  "doc7 = \<lparr>file_id = 7, filename = ''17-a.pdf'', originalname = Some ''a.pdf'',
            mimetype = Some ''application/pdf'', size_f = Some 6, pageCount = Some 1,
            uploadedBy = Some 161\<rparr>"

definition mf0 :: multer_file where
  "mf0 = \<lparr>mf_filename = ''17-a.pdf'', mf_originalname = ''a.pdf'',
           mf_mimetype = ''application/pdf'', mf_size = 6, mf_path = ''uploads/17-a.pdf''\<rparr>"

definition st0_staged :: state where
  "st0_staged = st0\<lparr>uploads := [''uploads/17-a.pdf'' \<mapsto> ''%PDF-1'']\<rparr>"

text \<open>
  An empty store, and a request to create Alice whose body already lists a File
  identifier: the one the next upload is going to be given.
\<close>

definition st_empty :: state where
  "st_empty = \<lparr>userColl = [], fileColl = [], uploads = Map.empty\<rparr>"

definition env_create :: env where
  "env_create = env0\<lparr>newObjectId := 161\<rparr>"

definition create_alice :: user_req where
  "create_alice = \<lparr>body_name = Some ''Alice'', body_files = [''000000000000000000000007'']\<rparr>"

definition st_listed :: state where
  "st_listed = snd (post_users env_create create_alice st_empty)"

text \<open>A store in which Alice owns fifteen documents and another owner one, for the listing.\<close>

definition alice_doc :: "nat \<Rightarrow> file_doc" where
  "alice_doc i = \<lparr>file_id = i, filename = ''f.pdf'', originalname = Some ''a.pdf'',
                  mimetype = Some ''application/pdf'', size_f = Some 1024, pageCount = Some 1,
                  uploadedBy = Some 161\<rparr>"



text \<open>A store whose File collection is in identifier order.\<close>

definition st3 :: state where
  "st3 = st0\<lparr>fileColl := map alice_doc [1, 2, 3]\<rparr>"

text \<open>
  The identifiers \<^verbatim>\<open>new File\<close> generates (the driver's \<^verbatim>\<open>ObjectId.generate\<close>): four bytes of
  the time in seconds, five bytes fixed when the process starts, three bytes of a counter
  that starts at a random value and is stepped by \<^verbatim>\<open>(index + 1) % 0xffffff\<close>. Two uploads
  by Alice in the same second, at 5000 and 5400 milliseconds, in a process whose counter
  stood at 16777213: the first is given the counter 16777214, the second the counter 0.
\<close>

definition bson_ObjectId :: "nat \<Rightarrow> nat \<Rightarrow> nat \<Rightarrow> objectId" where
  "bson_ObjectId seconds process counter = (seconds * 2 ^ 40 + process) * 2 ^ 24 + counter"

definition bson_getInc :: "nat \<Rightarrow> nat" where
  "bson_getInc index = (index + 1) mod 16777215"

definition env_first :: env where
  "env_first = env0\<lparr>now := 5000,
                    newObjectId := bson_ObjectId (5000 div 1000) 9 (bson_getInc 16777213)\<rparr>"

definition env_second :: env where
  "env_second = env0\<lparr>now := 5400,
                     newObjectId := bson_ObjectId (5400 div 1000) 9
                                      (bson_getInc (bson_getInc 16777213))\<rparr>"

definition doc_first :: file_doc where
  "doc_first = doc7\<lparr>file_id := bson_ObjectId 5 9 16777214, filename := ''5000-a.pdf''\<rparr>"

definition doc_second :: file_doc where
  "doc_second = doc7\<lparr>file_id := bson_ObjectId 5 9 0, filename := ''5400-a.pdf''\<rparr>"

definition get_all_request :: request where
  "get_all_request = \<lparr>req_method = GET, req_path = [''all''], query_page = None,
                       query_limit = None, req_upload = req0\<rparr>"

definition st_two :: state where
  "st_two = snd (post_files env_second req0 (snd (post_files env_first req0 st0)))"

section \<open>Evaluation of the example inputs\<close>

lemmas example_defs =
  alice_id_def nobody_id_def alice_def st0_def pdf_part_def txt_part_def broken_part_def
  parse0_def no_fault_def fault_at_def env0_def req0_def req_txt_def req_nobody_def
  req_broken_def doc7_def mf0_def st0_staged_def env_user_save_fails_def
  env_file_save_fails_def malformed_id_def upper_part_def param_part_def req_upper_def
  req_param_def req_malformed_def st_empty_def env_create_def create_alice_def
  unnamed_part_def req_unnamed_def

lemmas upload_defs =
  post_files_def upload_single_def upload_handler_def fileFilter_def fileSize_limit_def
  busboy_file_def busboy_mimetype_def parseContentType_def is_token_def lower_char_def
  params_ok.simps parse_param_def skip_ws_def is_qdtext_def basename_def Let_def
  storage_path_def storage_filename_def show_nat.simps User_findById_def castObjectId_def
  radix_digit_def digit_value_def load_pageCount_def File_save_def new_File_def
  User_save_def app_error_handler_def CastError_def

lemmas listing_defs =
  get_user_files_def File_find_page_def File_countDocuments_def owned_by_def parseInt_query_def
  or_default_def parseInt_def isWhiteSpace_def radix_digit_def digit_value_def castObjectId_def
  ceil_div_def

section \<open>The middleware and the store operations leave the other records alone\<close>

lemma upload_single_records:
  "upload_single e req st = (r, st1) \<Longrightarrow>
     userColl st1 = userColl st \<and> fileColl st1 = fileColl st"
  by (auto simp: upload_single_def split: option.splits if_splits)

lemma User_findById_userColl:
  "userColl st1 = userColl st \<Longrightarrow> User_findById e st1 u = User_findById e st u"
  by (simp add: User_findById_def split: option.splits)


section \<open>The exits of the upload handler\<close>

lemma find_replace:
  "find (\<lambda>u. user_id u = i) us = Some v \<Longrightarrow> user_id u' = i \<Longrightarrow>
   find (\<lambda>u. user_id u = i) (map (\<lambda>w. if user_id w = i then u' else w) us) = Some u'"
  by (induction us) (auto split: if_splits)

lemma User_findById_Some:
  "User_findById e st uid = Inr (Some u) \<Longrightarrow>
   \<exists>s. uid = Some s \<and> castObjectId s = Some (user_id u)
      \<and> find (\<lambda>v. user_id v = user_id u) (userColl st) = Some u"
  by (auto simp: User_findById_def find_Some_iff split: option.splits)

lemma File_save_Inr:
  "File_save e d st = Inr (d', st1) \<Longrightarrow>
     d' = d \<and> st1 = st\<lparr>fileColl := fileColl st @ [d]\<rparr> \<and> file_id d \<notin> file_id ` set (fileColl st)"
  by (auto simp: File_save_def split: option.splits if_splits)

lemma User_save_Inr:
  "User_save e u st = Inr st2 \<Longrightarrow>
     st2 = st\<lparr>userColl := map (\<lambda>v. if user_id v = user_id u then u else v) (userColl st)\<rparr>"
  by (auto simp: User_save_def split: option.splits)

text \<open>The handler's five outcomes, one per exit of the source.\<close>

lemma upload_handler_cases:
  obtains
    (no_file) "mf = None" "upload_handler e uid mf st = ((400, ErrorBody ''No file uploaded''), st)"
  | (lookup_throws) f err where "mf = Some f" "User_findById e st uid = Inl err"
      "upload_handler e uid mf st = ((400, ErrorBody (message err)), st)"
  | (not_found) f where "mf = Some f" "User_findById e st uid = Inr None"
      "upload_handler e uid mf st = ((404, ErrorBody ''User not found''), st)"
  | (parse_throws) f owner err where "mf = Some f" "User_findById e st uid = Inr (Some owner)"
      "load_pageCount e st (mf_path f) = Inl err"
      "upload_handler e uid mf st = ((400, ErrorBody (message err)), st)"
  | (file_save_throws) f owner pc err where "mf = Some f" "User_findById e st uid = Inr (Some owner)"
      "load_pageCount e st (mf_path f) = Inr pc"
      "File_save e (new_File e f pc uid) st = Inl err"
      "upload_handler e uid mf st = ((400, ErrorBody (message err)), st)"
  | (user_save_throws) f owner pc doc st1 err where "mf = Some f" "User_findById e st uid = Inr (Some owner)"
      "load_pageCount e st (mf_path f) = Inr pc"
      "File_save e (new_File e f pc uid) st = Inr (doc, st1)"
      "User_save e (owner\<lparr>files := files owner @ [file_id doc]\<rparr>) st1 = Inl err"
      "upload_handler e uid mf st = ((400, ErrorBody (message err)), st1)"
  | (created) f owner pc doc st1 st2 where "mf = Some f" "User_findById e st uid = Inr (Some owner)"
      "load_pageCount e st (mf_path f) = Inr pc"
      "File_save e (new_File e f pc uid) st = Inr (doc, st1)"
      "User_save e (owner\<lparr>files := files owner @ [file_id doc]\<rparr>) st1 = Inr st2"
      "upload_handler e uid mf st = ((201, FileBody doc), st2)"
proof (cases mf)
  case None
  then show ?thesis using no_file by (simp add: upload_handler_def)
next
  case (Some f)
  note f = Some
  show ?thesis
  proof (cases "User_findById e st uid")
    case (Inl err)
    then show ?thesis using f lookup_throws by (simp add: upload_handler_def)
  next
    case (Inr ou)
    note ou = Inr
    show ?thesis
    proof (cases ou)
      case None
      then show ?thesis using f ou not_found by (simp add: upload_handler_def)
    next
      case (Some owner)
      note owner = Some
      show ?thesis
      proof (cases "load_pageCount e st (mf_path f)")
        case (Inl err)
        then show ?thesis using f ou owner parse_throws by (simp add: upload_handler_def)
      next
        case (Inr pc)
        note pc = Inr
        show ?thesis
        proof (cases "File_save e (new_File e f pc uid) st")
          case (Inl err)
          then show ?thesis using f ou owner pc file_save_throws by (simp add: upload_handler_def)
        next
          case (Inr p)
          obtain doc st1 where p: "p = (doc, st1)" by (cases p)
          show ?thesis
          proof (cases "User_save e (owner\<lparr>files := files owner @ [file_id doc]\<rparr>) st1")
            case (Inl err)
            then show ?thesis using f ou owner pc Inr p user_save_throws
              by (simp add: upload_handler_def)
          next
            case (Inr st2)
            then show ?thesis using f ou owner pc \<open>File_save e (new_File e f pc uid) st = Inr p\<close> p created
              by (simp add: upload_handler_def)
          qed
        qed
      qed
    qed
  qed
qed

lemma post_files_rejected:
  "upload_single e req st = (Inl err, st1) \<Longrightarrow> post_files e req st = (app_error_handler err, st1)"
  by (simp add: post_files_def)

lemma post_files_accepted:
  "upload_single e req st = (Inr mf, st1) \<Longrightarrow>
     post_files e req st = upload_handler e (body_userId req) mf st1"
  by (simp add: post_files_def)

lemma upload_single_error:
  "upload_single e req st = (Inl err, st1) \<Longrightarrow> app_error_handler err = (500, AppErrorBody (message err))"
  by (auto simp: upload_single_def fileFilter_def app_error_handler_def split: option.splits if_splits)


lemma post_files_fileColl:
  "fileColl (snd (post_files e req st)) = fileColl st
   \<or> (\<exists>f pc. fileColl (snd (post_files e req st)) = fileColl st @ [new_File e f pc (body_userId req)])"
proof -
  obtain r st1 where us: "upload_single e req st = (r, st1)"
    by (cases "upload_single e req st")
  then have rec: "fileColl st1 = fileColl st"
    using upload_single_records by blast
  show ?thesis
  proof (cases r)
    case (Inl err)
    then show ?thesis using us rec by (simp add: post_files_rejected)
  next
    case (Inr mf)
    then have pf: "post_files e req st = upload_handler e (body_userId req) mf st1"
      using us by (simp add: post_files_accepted)
    show ?thesis
    proof (cases rule: upload_handler_cases [of mf e "body_userId req" st1])
      case (user_save_throws f owner pc doc st1a err)
      then show ?thesis using pf rec File_save_Inr [OF user_save_throws(4)] by auto
    next
      case (created f owner pc doc st1a st2)
      then show ?thesis
        using pf rec File_save_Inr [OF created(4)] User_save_Inr [OF created(5)] by auto
    qed (use pf rec in simp_all)
  qed
qed

section \<open>Claims about the upload pipeline\<close>




text \<open>
  C5, as the code has it. When the identifier of the request resolves to no owner (the
  lookup finds no record, or throws), no upload changes either collection. For an
  upload the middleware has accepted: when the lookup completes and finds no record the
  answer is 404 \<^verbatim>\<open>User not found\<close>; when the lookup throws, as it does for every string
  that is not an ObjectId, the answer is 400 with that error's message, from the
  handler's \<^verbatim>\<open>catch\<close>.
\<close>

theorem owner_not_found_no_writes:
  assumes "\<forall>u. User_findById e st (body_userId req) \<noteq> Inr (Some u)"
  shows "userColl (snd (post_files e req st)) = userColl st
       \<and> fileColl (snd (post_files e req st)) = fileColl st
       \<and> (\<forall>f st1. upload_single e req st = (Inr (Some f), st1) \<longrightarrow>
            (User_findById e st (body_userId req) = Inr None
               \<longrightarrow> post_files e req st = ((404, ErrorBody ''User not found''), st1))
          \<and> (\<forall>err. User_findById e st (body_userId req) = Inl err
               \<longrightarrow> post_files e req st = ((400, ErrorBody (message err)), st1))
          \<and> (\<forall>s. body_userId req = Some s \<and> castObjectId s = None
               \<longrightarrow> post_files e req st = ((400, ErrorBody ''Cast to ObjectId failed''), st1)))"
proof -
  obtain r st1 where us: "upload_single e req st = (r, st1)"
    by (cases "upload_single e req st")
  then have rec: "userColl st1 = userColl st \<and> fileColl st1 = fileColl st"
    by (rule upload_single_records)
  have own: "User_findById e st1 (body_userId req) = User_findById e st (body_userId req)"
    using rec User_findById_userColl [of st1 st e "body_userId req"] by simp
  have unchanged: "userColl (snd (post_files e req st)) = userColl st
       \<and> fileColl (snd (post_files e req st)) = fileColl st"
  proof (cases r)
    case (Inl err)
    then show ?thesis using us rec by (simp add: post_files_rejected)
  next
    case (Inr mf)
    then have pf: "post_files e req st = upload_handler e (body_userId req) mf st1"
      using us by (simp add: post_files_accepted)
    show ?thesis
      by (cases rule: upload_handler_cases [of mf e "body_userId req" st1])
         (use pf rec own assms in auto)
  qed
  have answers: "(User_findById e st (body_userId req) = Inr None
               \<longrightarrow> post_files e req st = ((404, ErrorBody ''User not found''), st2))
          \<and> (\<forall>err. User_findById e st (body_userId req) = Inl err
               \<longrightarrow> post_files e req st = ((400, ErrorBody (message err)), st2))
          \<and> (\<forall>s. body_userId req = Some s \<and> castObjectId s = None
               \<longrightarrow> post_files e req st = ((400, ErrorBody ''Cast to ObjectId failed''), st2))"
    if acc: "upload_single e req st = (Inr (Some f), st2)" for f st2
  proof -
    from acc us have st2: "st2 = st1" and r: "r = Inr (Some f)" by simp_all
    have pf: "post_files e req st = upload_handler e (body_userId req) (Some f) st2"
      using acc by (rule post_files_accepted)
    have cast: "User_findById e st (body_userId req) = Inl CastError"
      if "body_userId req = Some s" "castObjectId s = None" for s
      using that by (simp add: User_findById_def)
    show ?thesis
      using pf own st2 cast by (auto simp: upload_handler_def CastError_def)
  qed
  from unchanged answers show ?thesis by blast
qed

theorem owner_not_found_witness:
  "(\<forall>u. User_findById env0 st0 (body_userId req_nobody) \<noteq> Inr (Some u))
   \<and> upload_single env0 req_nobody st0 = (Inr (Some mf0), st0_staged)
   \<and> User_findById env0 st0 (body_userId req_nobody) = Inr None
   \<and> post_files env0 req_nobody st0 = ((404, ErrorBody ''User not found''), st0_staged)
   \<and> userColl (snd (post_files env0 req_nobody st0)) = userColl st0
   \<and> fileColl (snd (post_files env0 req_nobody st0)) = fileColl st0"
proof -
  have h1: "upload_single env0 req_nobody st0 = (Inr (Some mf0), st0_staged)"
    by (simp add: upload_defs example_defs)
  have h2: "User_findById env0 st0 (body_userId req_nobody) = Inr None"
    by (simp add: upload_defs example_defs)
  then have h3: "\<forall>u. User_findById env0 st0 (body_userId req_nobody) \<noteq> Inr (Some u)"
    by simp
  from owner_not_found_no_writes [OF h3] h1 h2
  have "post_files env0 req_nobody st0 = ((404, ErrorBody ''User not found''), st0_staged)
   \<and> userColl (snd (post_files env0 req_nobody st0)) = userColl st0
   \<and> fileColl (snd (post_files env0 req_nobody st0)) = fileColl st0"
    by blast
  with h1 h2 h3 show ?thesis by blast
qed

text \<open>
  C5 as stated fails for an identifier that is not an ObjectId: it resolves to no owner,
  but the lookup throws a cast error and the answer is 400 with that error's message,
  not 404 \<^verbatim>\<open>User not found\<close>.
\<close>

theorem malformed_owner_id_counterexample:
  "castObjectId malformed_id = None
   \<and> body_userId req_malformed = Some malformed_id
   \<and> User_findById env0 st0 (body_userId req_malformed) = Inl CastError
   \<and> post_files env0 req_malformed st0
       = ((400, ErrorBody ''Cast to ObjectId failed''), st0_staged)"
  by (simp add: upload_defs example_defs)

text \<open>
  C2, as the code has it. When the upload is answered 201, the body is the new File
  record; its owner reference is the identifier the request named, cast to an ObjectId;
  the record is the one appended to the File collection; and the owner's record in the
  store now lists what it listed before with the new identifier appended. The new
  identifier therefore occurs in the list once more than before: exactly once when the
  list did not hold it already, which the handler does not look at.
\<close>

theorem successful_upload_links_owner_once:
  assumes "post_files e req st = ((201, b), st')"
      and "User_findById e st (body_userId req) = Inr (Some owner)"
  shows "\<exists>doc s owner'. b = FileBody doc
           \<and> body_userId req = Some s \<and> castObjectId s = Some (user_id owner)
           \<and> uploadedBy doc = Some (user_id owner)
           \<and> fileColl st' = fileColl st @ [doc]
           \<and> find (\<lambda>u. user_id u = user_id owner) (userColl st') = Some owner'
           \<and> files owner' = files owner @ [file_id doc]
           \<and> count_list (files owner') (file_id doc) = count_list (files owner) (file_id doc) + 1
           \<and> (file_id doc \<notin> set (files owner)
                \<longrightarrow> count_list (files owner') (file_id doc) = 1)"
proof -
  obtain r st1 where us: "upload_single e req st = (r, st1)"
    by (cases "upload_single e req st")
  then have rec: "userColl st1 = userColl st \<and> fileColl st1 = fileColl st"
    by (rule upload_single_records)
  from assms(2) obtain s where s: "body_userId req = Some s" "castObjectId s = Some (user_id owner)"
    and fnd: "find (\<lambda>v. user_id v = user_id owner) (userColl st) = Some owner"
    using User_findById_Some by blast
  have own: "User_findById e st1 (body_userId req) = Inr (Some owner)"
    using rec assms(2) User_findById_userColl [of st1 st e "body_userId req"] by simp
  obtain mf where r: "r = Inr mf"
    using assms(1) us by (cases r) (auto simp: post_files_rejected dest: upload_single_error)
  then have h: "upload_handler e (body_userId req) mf st1 = ((201, b), st')"
    using assms(1) us by (simp add: post_files_accepted)
  show ?thesis
  proof (cases rule: upload_handler_cases [of mf e "body_userId req" st1])
    case (created f owner2 pc doc st1a st2)
    from created(2) own have o2: "owner2 = owner" by simp
    from created(6) h have b: "b = FileBody doc" and st2: "st2 = st'" by simp_all
    from File_save_Inr [OF created(4)] have doc: "doc = new_File e f pc (body_userId req)"
      and st1a: "st1a = st1\<lparr>fileColl := fileColl st1 @ [doc]\<rparr>" by simp_all
    let ?owner' = "owner\<lparr>files := files owner @ [file_id doc]\<rparr>"
    from User_save_Inr [OF created(5)] o2 st2
    have st': "st' = st1a\<lparr>userColl := map (\<lambda>v. if user_id v = user_id owner then ?owner' else v) (userColl st1a)\<rparr>"
      by simp
    have fid: "file_id doc = newObjectId e" using doc by (simp add: new_File_def)
    have "find (\<lambda>u. user_id u = user_id owner) (userColl st') = Some ?owner'"
      using fnd rec st' st1a by (simp add: find_replace)
    moreover have "count_list (files ?owner') (file_id doc)
                     = count_list (files owner) (file_id doc) + 1"
      by simp
    moreover have "file_id doc \<notin> set (files owner)
                     \<longrightarrow> count_list (files ?owner') (file_id doc) = 1"
      by (simp add: count_list_0_iff)
    moreover have "uploadedBy doc = Some (user_id owner)"
      using doc s by (simp add: new_File_def)
    moreover have "fileColl st' = fileColl st @ [doc]"
      using st' st1a rec by simp
    ultimately show ?thesis using b s by auto
  qed (use h in simp_all)
qed

theorem successful_upload_witness:
  "post_files env0 req0 st0
     = ((201, FileBody doc7), st0_staged\<lparr>userColl := [alice\<lparr>files := [7]\<rparr>], fileColl := [doc7]\<rparr>)
   \<and> User_findById env0 st0 (body_userId req0) = Inr (Some alice)
   \<and> file_id doc7 \<notin> set (files alice)
   \<and> (\<exists>doc s owner'. FileBody doc7 = FileBody doc
           \<and> body_userId req0 = Some s \<and> castObjectId s = Some (user_id alice)
           \<and> uploadedBy doc = Some (user_id alice)
           \<and> fileColl (st0_staged\<lparr>userColl := [alice\<lparr>files := [7]\<rparr>], fileColl := [doc7]\<rparr>)
               = fileColl st0 @ [doc]
           \<and> find (\<lambda>u. user_id u = user_id alice)
                (userColl (st0_staged\<lparr>userColl := [alice\<lparr>files := [7]\<rparr>], fileColl := [doc7]\<rparr>))
               = Some owner'
           \<and> files owner' = files alice @ [file_id doc]
           \<and> count_list (files owner') (file_id doc) = 1)"
proof -
  have h1: "post_files env0 req0 st0
     = ((201, FileBody doc7), st0_staged\<lparr>userColl := [alice\<lparr>files := [7]\<rparr>], fileColl := [doc7]\<rparr>)"
    by (simp add: upload_defs example_defs)
  have h2: "User_findById env0 st0 (body_userId req0) = Inr (Some alice)"
    by (simp add: upload_defs example_defs)
  have h3: "file_id doc7 \<notin> set (files alice)"
    by (simp add: example_defs)
  from successful_upload_links_owner_once [OF h1 h2] h3
  have "\<exists>doc s owner'. FileBody doc7 = FileBody doc
           \<and> body_userId req0 = Some s \<and> castObjectId s = Some (user_id alice)
           \<and> uploadedBy doc = Some (user_id alice)
           \<and> fileColl (st0_staged\<lparr>userColl := [alice\<lparr>files := [7]\<rparr>], fileColl := [doc7]\<rparr>)
               = fileColl st0 @ [doc]
           \<and> find (\<lambda>u. user_id u = user_id alice)
                (userColl (st0_staged\<lparr>userColl := [alice\<lparr>files := [7]\<rparr>], fileColl := [doc7]\<rparr>))
               = Some owner'
           \<and> files owner' = files alice @ [file_id doc]
           \<and> count_list (files owner') (file_id doc) = 1"
    by auto
  with h1 h2 h3 show ?thesis by blast
qed

text \<open>
  C2 as stated fails: \<^verbatim>\<open>POST /users\<close> stores the \<^verbatim>\<open>files\<close> array of the request body, so an
  owner can be created with a list that already holds the identifier a later upload is
  given (identifiers are made of the time, a value fixed per process and a counter).
  The upload is answered 201 and the owner's list then holds the identifier twice.
\<close>

theorem owner_list_duplicate_counterexample:
  "post_users env_create create_alice st_empty
     = ((201, UserBody (alice\<lparr>files := [7]\<rparr>)), st_listed)
   \<and> st_listed = st_empty\<lparr>userColl := [alice\<lparr>files := [7]\<rparr>]\<rparr>
   \<and> fst (post_files env0 req0 st_listed) = (201, FileBody doc7)
   \<and> userColl (snd (post_files env0 req0 st_listed)) = [alice\<lparr>files := [7, 7]\<rparr>]
   \<and> count_list [7, 7] (file_id doc7) = 2"
proof -
  have a: "post_users env_create create_alice st_empty
     = ((201, UserBody (alice\<lparr>files := [7]\<rparr>)), st_empty\<lparr>userColl := [alice\<lparr>files := [7]\<rparr>]\<rparr>)"
    by (simp add: post_users_def Let_def castObjectId_def radix_digit_def digit_value_def
        example_defs)
  then have b: "st_listed = st_empty\<lparr>userColl := [alice\<lparr>files := [7]\<rparr>]\<rparr>"
    by (simp add: st_listed_def)
  have c: "post_files env0 req0 (st_empty\<lparr>userColl := [alice\<lparr>files := [7]\<rparr>]\<rparr>)
     = ((201, FileBody doc7),
        \<lparr>userColl = [alice\<lparr>files := [7, 7]\<rparr>], fileColl = [doc7],
         uploads = [''uploads/17-a.pdf'' \<mapsto> ''%PDF-1'']\<rparr>)"
    by (simp add: upload_defs example_defs)
  have d: "count_list [7, 7] (file_id doc7) = 2" by (simp add: doc7_def)
  from a b c d show ?thesis by simp
qed

text \<open>
  C1, as the code has it. When \<^verbatim>\<open>file.save()\<close> has succeeded and \<^verbatim>\<open>user.save()\<close> then fails,
  the handler answers 400 with that error's message, through the same \<^verbatim>\<open>catch\<close> as every
  other failure of the handler: not 201, and with no status or body of its own. The File
  record stays in the collection and the owner's record is unchanged.
\<close>

theorem link_failure_answered_400_document_kept:
  assumes "upload_single e req st = (Inr (Some f), st1)"
      and "User_findById e st (body_userId req) = Inr (Some owner)"
      and "load_pageCount e st1 (mf_path f) = Inr pc"
      and "File_save e (new_File e f pc (body_userId req)) st1 = Inr (doc, st2)"
      and "User_save e (owner\<lparr>files := files owner @ [file_id doc]\<rparr>) st2 = Inl err"
  shows "post_files e req st = ((400, ErrorBody (message err)), st2)
         \<and> fileColl st2 = fileColl st @ [doc] \<and> userColl st2 = userColl st"
proof -
  have rec: "userColl st1 = userColl st \<and> fileColl st1 = fileColl st"
    using assms(1) by (rule upload_single_records)
  then have own: "User_findById e st1 (body_userId req) = Inr (Some owner)"
    using assms(2) User_findById_userColl [of st1 st e "body_userId req"] by simp
  have "upload_handler e (body_userId req) (Some f) st1 = ((400, ErrorBody (message err)), st2)"
    using own assms(3-5) by (simp add: upload_handler_def)
  then have "post_files e req st = ((400, ErrorBody (message err)), st2)"
    using assms(1) by (simp add: post_files_accepted)
  moreover have "st2 = st1\<lparr>fileColl := fileColl st1 @ [doc]\<rparr>"
    using File_save_Inr [OF assms(4)] by simp
  ultimately show ?thesis using rec by simp
qed

theorem link_failure_witness:
  "upload_single env_user_save_fails req0 st0 = (Inr (Some mf0), st0_staged)
   \<and> User_findById env_user_save_fails st0 (body_userId req0) = Inr (Some alice)
   \<and> load_pageCount env_user_save_fails st0_staged (mf_path mf0) = Inr 1
   \<and> File_save env_user_save_fails (new_File env_user_save_fails mf0 1 (body_userId req0)) st0_staged
       = Inr (doc7, st0_staged\<lparr>fileColl := [doc7]\<rparr>)
   \<and> User_save env_user_save_fails (alice\<lparr>files := files alice @ [file_id doc7]\<rparr>) (st0_staged\<lparr>fileColl := [doc7]\<rparr>)
       = Inl (Error ''connection closed'' None)
   \<and> post_files env_user_save_fails req0 st0
       = ((400, ErrorBody ''connection closed''), st0_staged\<lparr>fileColl := [doc7]\<rparr>)
   \<and> fileColl (st0_staged\<lparr>fileColl := [doc7]\<rparr>) = fileColl st0 @ [doc7]
   \<and> userColl (st0_staged\<lparr>fileColl := [doc7]\<rparr>) = userColl st0"
proof -
  have h1: "upload_single env_user_save_fails req0 st0 = (Inr (Some mf0), st0_staged)"
    by (simp add: upload_defs example_defs)
  have h2: "User_findById env_user_save_fails st0 (body_userId req0) = Inr (Some alice)"
    by (simp add: upload_defs example_defs)
  have h3: "load_pageCount env_user_save_fails st0_staged (mf_path mf0) = Inr 1"
    by (simp add: upload_defs example_defs)
  have h4: "File_save env_user_save_fails (new_File env_user_save_fails mf0 1 (body_userId req0)) st0_staged
       = Inr (doc7, st0_staged\<lparr>fileColl := [doc7]\<rparr>)"
    by (simp add: upload_defs example_defs)
  have h5: "User_save env_user_save_fails (alice\<lparr>files := files alice @ [file_id doc7]\<rparr>) (st0_staged\<lparr>fileColl := [doc7]\<rparr>)
       = Inl (Error ''connection closed'' None)"
    by (simp add: upload_defs example_defs)
  from link_failure_answered_400_document_kept [OF h1 h2 h3 h4 h5] h1 h2 h3 h4 h5 show ?thesis by simp
qed

text \<open>
  C1 as stated fails: the failure of the owner update is answered with status 400, a
  caller error like the parse failure, and the answer is the very one given when
  \<^verbatim>\<open>file.save()\<close> fails with the same store error, although in one case the File record
  exists and in the other it does not.
\<close>

theorem link_failure_not_distinct_counterexample:
  "fst (post_files env_user_save_fails req0 st0) = (400, ErrorBody ''connection closed'')
   \<and> fileColl (snd (post_files env_user_save_fails req0 st0)) = [doc7]
   \<and> fst (post_files env_file_save_fails req0 st0) = (400, ErrorBody ''connection closed'')
   \<and> fileColl (snd (post_files env_file_save_fails req0 st0)) = []
   \<and> fst (post_files env_user_save_fails req0 st0) = fst (post_files env_file_save_fails req0 st0)
   \<and> fst (post_files env0 req_broken st0) = (400, ErrorBody ''Failed to parse PDF document'')"
  by (simp add: upload_defs example_defs)




text \<open>
  C10. In every state that uploads produce from an empty File collection, every File
  record has a page count: the handler builds the record only after the parser has
  returned one.
\<close>

theorem pipeline_documents_have_pageCount:
  assumes "reachable st"
  shows "\<forall>d \<in> set (fileColl st). pageCount d \<noteq> None"
  using assms
proof (induction rule: reachable.induct)
  case (initial st)
  then show ?case by simp
next
  case (upload st e req)
  from post_files_fileColl [of e req st] upload.IH show ?case
    by (auto simp: new_File_def)
next
  case (users_changed st us)
  then show ?case by simp
qed

theorem pipeline_pageCount_witness:
  "reachable (snd (post_files env0 req0 st0))
   \<and> fileColl (snd (post_files env0 req0 st0)) = [doc7]
   \<and> pageCount doc7 \<noteq> None"
proof -
  have "reachable st0" by (rule reachable.initial) (simp add: st0_def)
  then have h1: "reachable (snd (post_files env0 req0 st0))" by (rule reachable.upload)
  have h2: "fileColl (snd (post_files env0 req0 st0)) = [doc7]"
    by (simp add: upload_defs example_defs)
  from pipeline_documents_have_pageCount [OF h1] h1 h2 show ?thesis by simp
qed

section \<open>Pagination arithmetic\<close>





section \<open>What a successful listing holds\<close>

lemma get_user_files_200:
  assumes "get_user_files e st userId page_q limit_q = (200, ListingBody l)"
  shows "\<exists>uid k n. castObjectId userId = Some uid
           \<and> files_l l = take n (drop k (owned_by uid (fileColl st)))"
proof -
  let ?page = "or_default (parseInt_query page_q) 1"
  let ?limit = "or_default (parseInt_query limit_q) 10"
  from assms obtain fs where
    f: "File_find_page e st userId ((?page - 1) * ?limit) ?limit = Inr fs" and l: "files_l l = fs"
    by (auto simp: get_user_files_def Let_def split: sum.splits)
  from f obtain uid where uid: "castObjectId userId = Some uid"
    by (auto simp: File_find_page_def split: option.splits)
  let ?m = "drop (nat ((?page - 1) * ?limit)) (owned_by uid (fileColl st))"
  from f uid have "fs = ?m \<or> fs = take (nat \<bar>?limit\<bar>) ?m"
    by (auto simp: File_find_page_def Let_def split: option.splits if_splits)
  then have "fs = take (length ?m) ?m \<or> fs = take (nat \<bar>?limit\<bar>) ?m" by simp
  with uid l show ?thesis by blast
qed

lemma get_user_files_fileColl:
  assumes "fileColl sta = fileColl st"
  shows "get_user_files e sta userId page_q limit_q = get_user_files e st userId page_q limit_q"
proof -
  have a: "File_find_page e sta userId k n = File_find_page e st userId k n" for k n
    using assms by (simp add: File_find_page_def split: option.splits)
  have b: "File_countDocuments e sta userId = File_countDocuments e st userId"
    using assms by (simp add: File_countDocuments_def split: option.splits)
  show ?thesis unfolding get_user_files_def a b ..
qed

lemma dispatch_GET:
  "dispatch files_routes GET path \<noteq> Some (Upload, ps)"
  by (simp add: files_routes_def split: option.splits)

lemma files_router_GET:
  assumes "req_method r = GET"
  shows "snd (files_router e r st) = st"
proof (cases "dispatch files_routes (req_method r) (req_path r)")
  case None
  then show ?thesis by (simp add: files_router_def)
next
  case (Some rp)
  obtain rt ps where rp: "rp = (rt, ps)" by (cases rp)
  show ?thesis
  proof (cases rt)
    case Upload
    then show ?thesis using Some rp assms dispatch_GET [of "req_path r" ps] by simp
  qed (use Some rp in \<open>simp_all add: files_router_def\<close>)
qed

lemma two_uploads_listing:
  "reachable st_two
   \<and> fileColl st_two = [doc_first, doc_second]
   \<and> get_user_files env0 st_two alice_id None None
       = (200, ListingBody \<lparr>files_l = [doc_first, doc_second], totalPages = 1, total = 2,
                             currentPage = 1\<rparr>)
   \<and> file_id doc_second < file_id doc_first
   \<and> \<not> sorted (map file_id [doc_first, doc_second])"
proof -
  have "reachable st0" by (rule reachable.initial) (simp add: st0_def)
  then have "reachable (snd (post_files env_first req0 st0))" by (rule reachable.upload)
  then have r: "reachable st_two" unfolding st_two_def by (rule reachable.upload)
  have ida: "newObjectId env_first = bson_ObjectId 5 9 16777214"
    by (simp add: env_first_def bson_getInc_def)
  have idb: "newObjectId env_second = bson_ObjectId 5 9 0"
    by (simp add: env_second_def bson_getInc_def)
  have one: "snd (post_files env_first req0 st0)
     = \<lparr>userColl = [alice\<lparr>files := [bson_ObjectId 5 9 16777214]\<rparr>], fileColl = [doc_first],
        uploads = [''uploads/5000-a.pdf'' \<mapsto> ''%PDF-1'']\<rparr>"
    using ida
    by (simp add: upload_defs example_defs env_first_def doc_first_def)
  have lt: "bson_ObjectId 5 9 0 < bson_ObjectId 5 9 16777214"
    by (simp add: bson_ObjectId_def)
  have two: "fileColl (snd (post_files env_second req0
       \<lparr>userColl = [alice\<lparr>files := [bson_ObjectId 5 9 16777214]\<rparr>], fileColl = [doc_first],
        uploads = [''uploads/5000-a.pdf'' \<mapsto> ''%PDF-1'']\<rparr>))
     = [doc_first, doc_second]"
    using idb lt
    by (simp add: upload_defs example_defs env_second_def doc_first_def doc_second_def)
  have fc: "fileColl st_two = [doc_first, doc_second]" using one two by (simp add: st_two_def)
  have ids: "file_id doc_second < file_id doc_first"
    using lt by (simp add: doc_first_def doc_second_def)
  have own: "owned_by 161 [doc_first, doc_second] = [doc_first, doc_second]"
    by (simp add: owned_by_def doc_first_def doc_second_def doc7_def)
  have u: "parseInt ''undefined'' = None"
    by (simp add: parseInt_def isWhiteSpace_def radix_digit_def digit_value_def)
  have cast: "castObjectId alice_id = Some 161"
    by (simp add: castObjectId_def alice_id_def radix_digit_def digit_value_def)
  have l: "get_user_files env0 st_two alice_id None None
       = (200, ListingBody \<lparr>files_l = [doc_first, doc_second], totalPages = 1, total = 2,
                             currentPage = 1\<rparr>)"
    using fc own u cast
    by (simp add: get_user_files_def File_find_page_def File_countDocuments_def parseInt_query_def
        or_default_def ceil_div_def env0_def no_fault_def)
  from r fc l ids show ?thesis by simp
qed

section \<open>Claims about the paginated listing\<close>



text \<open>
  C4, as the code has it. Parsing \<^verbatim>\<open>page\<close> and \<^verbatim>\<open>limit\<close> never fails: an omitted parameter,
  one with no leading number, and one that parses to 0 are replaced by the default (1
  for the page, 10 for the limit); every other parsed number is kept, a negative one
  too. The limit is therefore never 0, and a successful answer reports the page and the
  page count computed from these two numbers.
\<close>

theorem page_and_limit_defaults:
  "or_default (parseInt_query None) 1 = 1
   \<and> or_default (parseInt_query None) 10 = 10
   \<and> (parseInt_query q = None \<longrightarrow> or_default (parseInt_query q) d = d)
   \<and> (parseInt_query q = Some 0 \<longrightarrow> or_default (parseInt_query q) d = d)
   \<and> (parseInt_query q = Some n \<and> n \<noteq> 0 \<longrightarrow> or_default (parseInt_query q) d = n)
   \<and> or_default (parseInt_query q) 10 \<noteq> 0
   \<and> (get_user_files e st userId page_q limit_q = (200, ListingBody l) \<longrightarrow>
        currentPage l = or_default (parseInt_query page_q) 1
        \<and> totalPages l = ceil_div (int (total l)) (or_default (parseInt_query limit_q) 10))"
proof -
  have u: "parseInt ''undefined'' = None"
    by (simp add: parseInt_def isWhiteSpace_def radix_digit_def digit_value_def)
  have a: "or_default (parseInt_query None) 1 = 1" "or_default (parseInt_query None) 10 = 10"
    using u by (simp_all add: parseInt_query_def or_default_def)
  have b: "or_default (parseInt_query q) 10 \<noteq> 0"
    by (simp add: or_default_def split: option.splits)
  have c: "get_user_files e st userId page_q limit_q = (200, ListingBody l) \<longrightarrow>
        currentPage l = or_default (parseInt_query page_q) 1
        \<and> totalPages l = ceil_div (int (total l)) (or_default (parseInt_query limit_q) 10)"
    by (auto simp: get_user_files_def Let_def split: sum.splits)
  from a b c show ?thesis by (simp add: or_default_def)
qed

theorem page_and_limit_witness:
  "or_default (parseInt_query None) 1 = 1
   \<and> or_default (parseInt_query None) 10 = 10
   \<and> parseInt_query (Some ''abc'') = None \<and> or_default (parseInt_query (Some ''abc'')) 1 = 1
   \<and> parseInt_query (Some ''0'') = Some 0 \<and> or_default (parseInt_query (Some ''0'')) 10 = 10
   \<and> parseInt_query (Some ''3'') = Some 3 \<and> or_default (parseInt_query (Some ''3'')) 1 = 3
   \<and> parseInt_query (Some ''-2'') = Some (- 2) \<and> or_default (parseInt_query (Some ''-2'')) 1 = - 2
   \<and> get_user_files env0 st0 alice_id None None
       = (200, ListingBody \<lparr>files_l = [], totalPages = 0, total = 0, currentPage = 1\<rparr>)
   \<and> currentPage \<lparr>files_l = [], totalPages = 0, total = 0, currentPage = 1\<rparr>
       = or_default (parseInt_query None) 1"
proof -
  have h1: "parseInt_query (Some ''abc'') = None"
    by (simp add: parseInt_query_def parseInt_def isWhiteSpace_def radix_digit_def digit_value_def)
  have h2: "parseInt_query (Some ''0'') = Some 0"
    by (simp add: parseInt_query_def parseInt_def isWhiteSpace_def radix_digit_def digit_value_def)
  have h3: "parseInt_query (Some ''3'') = Some 3 \<and> (3::int) \<noteq> 0"
    by (simp add: parseInt_query_def parseInt_def isWhiteSpace_def radix_digit_def digit_value_def)
  have h4: "parseInt_query (Some ''-2'') = Some (- 2) \<and> (- 2::int) \<noteq> 0"
    by (simp add: parseInt_query_def parseInt_def isWhiteSpace_def radix_digit_def digit_value_def)
  from page_and_limit_defaults [of "Some ''abc''" 1] h1 have a: "or_default (parseInt_query (Some ''abc'')) 1 = 1" by blast
  from page_and_limit_defaults [of "Some ''0''" 10] h2 have b: "or_default (parseInt_query (Some ''0'')) 10 = 10" by blast
  from page_and_limit_defaults [of "Some ''3''" 1 3] h3 have c: "or_default (parseInt_query (Some ''3'')) 1 = 3" by blast
  from page_and_limit_defaults [of "Some ''-2''" 1 "- 2"] h4 have d: "or_default (parseInt_query (Some ''-2'')) 1 = - 2" by blast
  from page_and_limit_defaults [of None 1] have e: "or_default (parseInt_query None) 1 = 1 \<and> or_default (parseInt_query None) 10 = 10" by blast
  have h5: "get_user_files env0 st0 alice_id None None
       = (200, ListingBody \<lparr>files_l = [], totalPages = 0, total = 0, currentPage = 1\<rparr>)"
    by (simp add: listing_defs example_defs)
  from page_and_limit_defaults [where e = env0 and st = st0 and userId = alice_id
      and page_q = None and limit_q = None] h5
  have f: "currentPage \<lparr>files_l = [], totalPages = 0, total = 0, currentPage = 1\<rparr>
       = or_default (parseInt_query None) 1" by blast
  from a b c d e f h1 h2 h3 h4 h5 show ?thesis by simp
qed

text \<open>
  C4 as stated fails for a negative page: \<^verbatim>\<open>parseInt("-1") || 1\<close> is \<open>-1\<close>, not 1, and the
  listing then asks the store to skip a negative number of records, which the store
  refuses.
\<close>

theorem negative_page_kept_counterexample:
  "parseInt_query (Some ''-1'') = Some (- 1)
   \<and> or_default (parseInt_query (Some ''-1'')) 1 = - 1
   \<and> get_user_files env0 st0 alice_id (Some ''-1'') None
       = (500, ErrorBody ''skip value must be non-negative'')"
  by (simp add: get_user_files_def File_find_page_def parseInt_query_def or_default_def parseInt_def
     isWhiteSpace_def radix_digit_def digit_value_def castObjectId_def example_defs)

text \<open>
  C8, as the code has it. The query names no sort key. A successful listing returns a
  contiguous window of the owner's File records in the order in which the store holds
  the collection, so what it returns is a subsequence of the collection and is in
  identifier order if the collection is. The answer depends on the state only through
  the File collection: a state with the same File collection gives the same answer, and
  so does the state after any \<^verbatim>\<open>GET\<close> request to the router.
\<close>

theorem listing_in_collection_order:
  assumes "get_user_files e st userId page_q limit_q = (200, ListingBody l)"
  shows "\<exists>uid k n. castObjectId userId = Some uid
           \<and> files_l l = take n (drop k (owned_by uid (fileColl st)))
           \<and> subseq (files_l l) (fileColl st)
           \<and> (sorted (map file_id (fileColl st)) \<longrightarrow> sorted (map file_id (files_l l)))
           \<and> (fileColl sta = fileColl st \<longrightarrow>
                get_user_files e sta userId page_q limit_q = (200, ListingBody l))
           \<and> (req_method r = GET \<longrightarrow>
                get_user_files e (snd (files_router e2 r st)) userId page_q limit_q
                  = (200, ListingBody l))"
proof -
  from get_user_files_200 [OF assms] obtain uid k n where
    uid: "castObjectId userId = Some uid"
    and w: "files_l l = take n (drop k (owned_by uid (fileColl st)))"
    by blast
  let ?docs = "owned_by uid (fileColl st)"
  have "subseq (take n (drop k ?docs)) (drop k ?docs)"
    using take_is_prefix by (rule prefix_imp_subseq)
  moreover have "subseq (drop k ?docs) ?docs"
    using suffix_drop by (rule suffix_imp_subseq)
  moreover have "subseq ?docs (fileColl st)"
    by (simp add: owned_by_def)
  ultimately have sub: "subseq (files_l l) (fileColl st)"
    using w by (metis subseq_order.order_trans)
  have srt: "sorted (map file_id (fileColl st)) \<longrightarrow> sorted (map file_id (files_l l))"
  proof
    assume "sorted (map file_id (fileColl st))"
    then have "sorted (map file_id ?docs)" unfolding owned_by_def by (rule sorted_filter)
    then have "sorted (take n (drop k (map file_id ?docs)))" by simp
    then show "sorted (map file_id (files_l l))" using w by (simp add: take_map drop_map)
  qed
  have det: "fileColl sta = fileColl st \<longrightarrow>
                get_user_files e sta userId page_q limit_q = (200, ListingBody l)"
    using assms get_user_files_fileColl [of sta st e userId page_q limit_q] by simp
  have get: "req_method r = GET \<longrightarrow>
                get_user_files e (snd (files_router e2 r st)) userId page_q limit_q
                  = (200, ListingBody l)"
    using assms files_router_GET [of r e2 st] by simp
  from uid w sub srt det get show ?thesis by blast
qed

theorem listing_order_witness:
  "get_user_files env0 st_two alice_id None None
       = (200, ListingBody \<lparr>files_l = [doc_first, doc_second], totalPages = 1, total = 2,
                             currentPage = 1\<rparr>)
   \<and> subseq [doc_first, doc_second] (fileColl st_two)
   \<and> (\<exists>uid k n. castObjectId alice_id = Some uid
        \<and> [doc_first, doc_second] = take n (drop k (owned_by uid (fileColl st_two))))
   \<and> fileColl (st_two\<lparr>userColl := []\<rparr>) = fileColl st_two
   \<and> get_user_files env0 (st_two\<lparr>userColl := []\<rparr>) alice_id None None
       = (200, ListingBody \<lparr>files_l = [doc_first, doc_second], totalPages = 1, total = 2,
                             currentPage = 1\<rparr>)
   \<and> req_method get_all_request = GET
   \<and> get_user_files env0 (snd (files_router env0 get_all_request st_two)) alice_id None None
       = (200, ListingBody \<lparr>files_l = [doc_first, doc_second], totalPages = 1, total = 2,
                             currentPage = 1\<rparr>)
   \<and> sorted (map file_id (fileColl st3))
   \<and> get_user_files env0 st3 alice_id (Some ''2'') (Some ''2'')
       = (200, ListingBody \<lparr>files_l = [alice_doc 3], totalPages = 2, total = 3,
                             currentPage = 2\<rparr>)
   \<and> get_user_files env0 st3 alice_id None (Some ''2'')
       = (200, ListingBody \<lparr>files_l = [alice_doc 1, alice_doc 2], totalPages = 2, total = 3,
                             currentPage = 1\<rparr>)
   \<and> sorted (map file_id [alice_doc 1, alice_doc 2])"
proof -
  have h: "get_user_files env0 st_two alice_id None None
       = (200, ListingBody \<lparr>files_l = [doc_first, doc_second], totalPages = 1, total = 2,
                             currentPage = 1\<rparr>)"
    using two_uploads_listing by simp
  have eq: "fileColl (st_two\<lparr>userColl := []\<rparr>) = fileColl st_two" by simp
  have g: "req_method get_all_request = GET" by (simp add: get_all_request_def)
  from listing_in_collection_order [OF h, where sta = "st_two\<lparr>userColl := []\<rparr>"
      and r = get_all_request and ?e2.0 = env0] eq g
  have a: "subseq [doc_first, doc_second] (fileColl st_two)
   \<and> (\<exists>uid k n. castObjectId alice_id = Some uid
        \<and> [doc_first, doc_second] = take n (drop k (owned_by uid (fileColl st_two))))
   \<and> get_user_files env0 (st_two\<lparr>userColl := []\<rparr>) alice_id None None
       = (200, ListingBody \<lparr>files_l = [doc_first, doc_second], totalPages = 1, total = 2,
                             currentPage = 1\<rparr>)
   \<and> get_user_files env0 (snd (files_router env0 get_all_request st_two)) alice_id None None
       = (200, ListingBody \<lparr>files_l = [doc_first, doc_second], totalPages = 1, total = 2,
                             currentPage = 1\<rparr>)"
    by auto
  have s3: "sorted (map file_id (fileColl st3))"
    by (simp add: st3_def alice_doc_def)
  have h3: "get_user_files env0 st3 alice_id (Some ''2'') (Some ''2'')
       = (200, ListingBody \<lparr>files_l = [alice_doc 3], totalPages = 2, total = 3,
                             currentPage = 2\<rparr>)"
    by (simp add: listing_defs example_defs st3_def alice_doc_def)
  have h4: "get_user_files env0 st3 alice_id None (Some ''2'')
       = (200, ListingBody \<lparr>files_l = [alice_doc 1, alice_doc 2], totalPages = 2, total = 3,
                             currentPage = 1\<rparr>)"
    by (simp add: listing_defs example_defs st3_def alice_doc_def)
  from listing_in_collection_order [OF h4, where sta = st3 and r = get_all_request
      and ?e2.0 = env0] s3
  have b: "sorted (map file_id [alice_doc 1, alice_doc 2])"
    by auto
  from h a eq g s3 h3 h4 b show ?thesis by blast
qed

text \<open>
  C8 as stated fails: the listing is not ordered by identifier. Two uploads of one
  process within one second, the identifier counter wrapping round between them: the
  second record is given the smaller identifier and is stored after the first, and the
  listing returns the first before the second.
\<close>

theorem listing_not_in_identifier_order_counterexample:
  "newObjectId env_first = bson_ObjectId (now env_first div 1000) 9 (bson_getInc 16777213)
   \<and> newObjectId env_second
       = bson_ObjectId (now env_second div 1000) 9 (bson_getInc (bson_getInc 16777213))
   \<and> st_two = snd (post_files env_second req0 (snd (post_files env_first req0 st0)))
   \<and> reachable st_two
   \<and> fileColl st_two = [doc_first, doc_second]
   \<and> get_user_files env0 st_two alice_id None None
       = (200, ListingBody \<lparr>files_l = [doc_first, doc_second], totalPages = 1, total = 2,
                             currentPage = 1\<rparr>)
   \<and> file_id doc_second < file_id doc_first
   \<and> \<not> sorted (map file_id [doc_first, doc_second])"
  using two_uploads_listing by (simp add: env_first_def env_second_def st_two_def)

section \<open>Claims about the router\<close>

lemma never_GetAllFiles: "dispatch files_routes m path \<noteq> Some (GetAllFiles, ps)"
proof (cases path)
  case Nil
  then show ?thesis by (cases m) (simp_all add: files_routes_def)
next
  case (Cons s ss)
  show ?thesis
  proof (cases ss)
    case Nil
    then show ?thesis using Cons by (cases m) (auto simp: files_routes_def)
  next
    case (Cons t ts)
    then show ?thesis using \<open>path = s # ss\<close>
      by (cases m; cases ts) (auto simp: files_routes_def split: option.splits)
  qed
qed

lemma post_files_body: "snd (fst (post_files e req st)) \<noteq> FilesBody fs"
proof -
  obtain r st1 where us: "upload_single e req st = (r, st1)"
    by (cases "upload_single e req st")
  show ?thesis
  proof (cases r)
    case (Inl err)
    then show ?thesis using us by (simp add: post_files_rejected app_error_handler_def)
  next
    case (Inr mf)
    then have pf: "post_files e req st = upload_handler e (body_userId req) mf st1"
      using us by (simp add: post_files_accepted)
    show ?thesis
      by (cases rule: upload_handler_cases [of mf e "body_userId req" st1]) (use pf in simp_all)
  qed
qed

lemma get_file_by_id_body: "snd (get_file_by_id e st i) \<noteq> FilesBody fs"
  by (simp add: get_file_by_id_def split: sum.splits option.splits)

lemma get_user_files_body: "snd (get_user_files e st u pq lq) \<noteq> FilesBody fs"
  by (simp add: get_user_files_def Let_def split: sum.splits)

text \<open>
  C9. The route \<^verbatim>\<open>/:id\<close> is registered before \<^verbatim>\<open>/all\<close>, so \<^verbatim>\<open>GET /files/all\<close> is dispatched
  to the handler for a single file with the identifier \<^verbatim>\<open>all\<close>, which is no ObjectId: the
  answer is 500 with the cast error. No method and path is ever dispatched to the
  handler that lists all files, and no answer of the router is the array of all files.
\<close>

theorem list_all_route_unreachable:
  "dispatch files_routes GET [''all''] = Some (GetFileById, [(''id'', ''all'')])
   \<and> files_router e (req\<lparr>req_method := GET, req_path := [''all'']\<rparr>) st
       = ((500, ErrorBody ''Cast to ObjectId failed''), st)
   \<and> dispatch files_routes m path \<noteq> Some (GetAllFiles, ps)
   \<and> snd (fst (files_router e r st)) \<noteq> FilesBody fs"
proof -
  have a: "dispatch files_routes GET [''all''] = Some (GetFileById, [(''id'', ''all'')])"
    by (simp add: files_routes_def)
  have b: "get_file_by_id e st ''all'' = (500, ErrorBody ''Cast to ObjectId failed'')"
    by (simp add: get_file_by_id_def File_findById_def castObjectId_def CastError_def)
  have c: "files_router e (req\<lparr>req_method := GET, req_path := [''all'']\<rparr>) st
       = ((500, ErrorBody ''Cast to ObjectId failed''), st)"
    using a b by (simp add: files_router_def param_def)
  have d: "snd (fst (files_router e r st)) \<noteq> FilesBody fs"
  proof (cases "dispatch files_routes (req_method r) (req_path r)")
    case None
    then show ?thesis by (simp add: files_router_def app_error_handler_def)
  next
    case (Some rp)
    obtain rt ps' where rp: "rp = (rt, ps')" by (cases rp)
    show ?thesis
    proof (cases rt)
      case Upload
      then show ?thesis using Some rp by (simp add: files_router_def post_files_body)
    next
      case GetFileById
      then show ?thesis using Some rp by (simp add: files_router_def get_file_by_id_body)
    next
      case GetUserFiles
      then show ?thesis using Some rp by (simp add: files_router_def get_user_files_body)
    next
      case GetAllFiles
      then show ?thesis using Some rp never_GetAllFiles by simp
    qed
  qed
  from a c d never_GetAllFiles show ?thesis by simp
qed

end
